theory Spec2Isabelle
  imports Main "HOL-Library.Sublist" "HOL-Library.Word"
begin

unbundle bit_operations_syntax

section \<open>Strings and numbers of the host language\<close>

text \<open>
  A JavaScript string is represented by its UTF-8 encoding, a \<^typ>\<open>string\<close> of bytes: this
  is what \<open>Buffer.from(s)\<close> and \<open>hmac.update(s, 'utf8')\<close> read, and a template literal
  concatenates the encodings. A number that holds a Unix time or a tolerance is an
  \<^typ>\<open>int\<close>; the model is exact for the safe integers (below \<open>2 ^ 53\<close> in absolute value),
  where \<open>Number.prototype.toString\<close> prints the plain decimal digits. \<open>NaN\<close> is \<open>None\<close>.
\<close>

definition isDigit :: "char \<Rightarrow> bool" where
  "isDigit c \<longleftrightarrow> (48::nat) \<le> of_char c \<and> of_char c \<le> (57::nat)"

definition digitValue :: "char \<Rightarrow> nat" where
  "digitValue c = of_char c - 48"

definition digitChar :: "nat \<Rightarrow> char" where
  "digitChar d = char_of (48 + d)"

text \<open>
  \<open>StrWhiteSpaceChar\<close> of ECMAScript (white space and line terminators), each given by
  its UTF-8 bytes: TAB, LF, VT, FF, CR, SP, U+00A0, U+1680, U+2000 to U+200A, U+2028,
  U+2029, U+202F, U+205F, U+3000, U+FEFF.
\<close>

definition whiteSpaceChars :: "string list" where
  "whiteSpaceChars =
     [[CHR 0x09], [CHR 0x0A], [CHR 0x0B], [CHR 0x0C], [CHR 0x0D], [CHR 0x20],
      [CHR 0xC2, CHR 0xA0],
      [CHR 0xE1, CHR 0x9A, CHR 0x80],
      [CHR 0xE2, CHR 0x80, CHR 0x80], [CHR 0xE2, CHR 0x80, CHR 0x81],
      [CHR 0xE2, CHR 0x80, CHR 0x82], [CHR 0xE2, CHR 0x80, CHR 0x83],
      [CHR 0xE2, CHR 0x80, CHR 0x84], [CHR 0xE2, CHR 0x80, CHR 0x85],
      [CHR 0xE2, CHR 0x80, CHR 0x86], [CHR 0xE2, CHR 0x80, CHR 0x87],
      [CHR 0xE2, CHR 0x80, CHR 0x88], [CHR 0xE2, CHR 0x80, CHR 0x89],
      [CHR 0xE2, CHR 0x80, CHR 0x8A],
      [CHR 0xE2, CHR 0x80, CHR 0xA8], [CHR 0xE2, CHR 0x80, CHR 0xA9],
      [CHR 0xE2, CHR 0x80, CHR 0xAF],
      [CHR 0xE2, CHR 0x81, CHR 0x9F],
      [CHR 0xE3, CHR 0x80, CHR 0x80],
      [CHR 0xEF, CHR 0xBB, CHR 0xBF]]"

definition leadingWhiteSpace :: "string \<Rightarrow> string option" where
  "leadingWhiteSpace s = find (\<lambda>w. prefix w s) whiteSpaceChars"

lemma leadingWhiteSpace_shorter:
  assumes "leadingWhiteSpace s = Some w"
  shows "length (drop (length w) s) < length s"
proof -
  from assms have mem: "w \<in> set whiteSpaceChars" and pre: "prefix w s"
    by (auto simp: leadingWhiteSpace_def find_Some_iff)
  from mem have "w \<noteq> []"
    by (auto simp: whiteSpaceChars_def)
  then have "0 < length w" by simp
  moreover from pre have "length w \<le> length s"
    by (rule prefix_length_le)
  ultimately have "length s - length w < length s" by arith
  then show ?thesis by simp
qed

function trimStart :: "string \<Rightarrow> string" where
  "trimStart s =
     (case leadingWhiteSpace s of
        None \<Rightarrow> s
      | Some w \<Rightarrow> trimStart (drop (length w) s))"
  by pat_completeness auto
termination
  by (relation "measure length") (auto dest: leadingWhiteSpace_shorter)

declare trimStart.simps [simp del]

text \<open>
  \<open>parseInt(string, 10)\<close>: leading white space is skipped, one sign is read, and the
  longest prefix of decimal digits that follows is the value; whatever comes after the
  digits is ignored. No digit at that place gives \<open>NaN\<close>.
\<close>

definition parseInt :: "string \<Rightarrow> int option" where
  "parseInt inputString =
     (let S = trimStart inputString;
          negative = (S \<noteq> [] \<and> hd S = CHR ''-'');
          S' = (if S \<noteq> [] \<and> (hd S = CHR ''+'' \<or> hd S = CHR ''-'') then tl S else S);
          Z = takeWhile isDigit S'
      in if Z = [] then None
         else let mathInt = int (foldl (\<lambda>a c. 10 * a + digitValue c) 0 Z)
              in Some (if negative then - mathInt else mathInt))"

text \<open>\<open>Number.prototype.toString\<close> on an integer: the decimal digits, \<open>-\<close> first when negative.\<close>

fun digits :: "nat \<Rightarrow> string" where
  "digits n = (if n < 10 then [digitChar n] else digits (n div 10) @ [digitChar (n mod 10)])"

declare digits.simps [simp del]

definition toString :: "int \<Rightarrow> string" where
  "toString n = (if n < 0 then CHR ''-'' # digits (nat (- n)) else digits (nat n))"

section \<open>The platform's keyed digest\<close>

text \<open>
  \<open>crypto.createHmac('sha256', key).update(message, 'utf8').digest('hex')\<close> of Node.js:
  HMAC (RFC 2104) over SHA-256 (FIPS 180-4), printed as 64 lower-case hexadecimal digits.
  The round constants \<open>K256\<close> are the first 32 bits of the fractional parts of the cube
  roots of the first 64 primes, the initial state \<open>H256\<close> those of the square roots of the
  first 8 primes; both are written in decimal.
\<close>

type_synonym byte = "8 word"
type_synonym word32 = "32 word"

definition K256 :: "word32 list" where
  "K256 =
     [1116352408, 1899447441, 3049323471, 3921009573, 961987163, 1508970993, 2453635748,
      2870763221, 3624381080, 310598401, 607225278, 1426881987, 1925078388, 2162078206,
      2614888103, 3248222580, 3835390401, 4022224774, 264347078, 604807628, 770255983,
      1249150122, 1555081692, 1996064986, 2554220882, 2821834349, 2952996808, 3210313671,
      3336571891, 3584528711, 113926993, 338241895, 666307205, 773529912, 1294757372,
      1396182291, 1695183700, 1986661051, 2177026350, 2456956037, 2730485921, 2820302411,
      3259730800, 3345764771, 3516065817, 3600352804, 4094571909, 275423344, 430227734,
      506948616, 659060556, 883997877, 958139571, 1322822218, 1537002063, 1747873779,
      1955562222, 2024104815, 2227730452, 2361852424, 2428436474, 2756734187, 3204031479,
      3329325298]"

definition rotr :: "nat \<Rightarrow> word32 \<Rightarrow> word32" where
  "rotr n x = drop_bit n x OR push_bit (32 - n) x"

definition Ch :: "word32 \<Rightarrow> word32 \<Rightarrow> word32 \<Rightarrow> word32" where
  "Ch x y z = (x AND y) XOR (NOT x AND z)"

definition Maj :: "word32 \<Rightarrow> word32 \<Rightarrow> word32 \<Rightarrow> word32" where
  "Maj x y z = (x AND y) XOR (x AND z) XOR (y AND z)"

definition Sigma0 :: "word32 \<Rightarrow> word32" where
  "Sigma0 x = rotr 2 x XOR rotr 13 x XOR rotr 22 x"

definition Sigma1 :: "word32 \<Rightarrow> word32" where
  "Sigma1 x = rotr 6 x XOR rotr 11 x XOR rotr 25 x"

definition sigma0 :: "word32 \<Rightarrow> word32" where
  "sigma0 x = rotr 7 x XOR rotr 18 x XOR drop_bit 3 x"

definition sigma1 :: "word32 \<Rightarrow> word32" where
  "sigma1 x = rotr 17 x XOR rotr 19 x XOR drop_bit 10 x"

text \<open>Big-endian bytes of a number, \<open>k\<close> of them.\<close>

fun be_bytes :: "nat \<Rightarrow> nat \<Rightarrow> byte list" where
  "be_bytes 0 n = []"
| "be_bytes (Suc k) n = be_bytes k (n div 256) @ [of_nat (n mod 256)]"

definition pad :: "byte list \<Rightarrow> byte list" where
  "pad m = m @ [0x80] @ replicate ((119 - length m mod 64) mod 64) 0 @ be_bytes 8 (8 * length m)"

definition word_of_bytes :: "byte list \<Rightarrow> word32" where
  "word_of_bytes bs = foldl (\<lambda>a b. push_bit 8 a OR ucast b) 0 bs"

fun chunks :: "nat \<Rightarrow> 'a list \<Rightarrow> 'a list list" where
  "chunks n [] = []"
| "chunks n (x # xs) =
     (if n = 0 then [] else take n (x # xs) # chunks n (drop n (x # xs)))"

text \<open>The message schedule: \<open>w\<close> holds the words so far, newest first.\<close>

fun schedule :: "nat \<Rightarrow> word32 list \<Rightarrow> word32 list" where
  "schedule 0 w = w"
| "schedule (Suc k) w =
     schedule k ((sigma1 (w ! 1) + w ! 6 + sigma0 (w ! 14) + w ! 15) # w)"

type_synonym hash_state = "word32 list"

definition round256 :: "hash_state \<Rightarrow> word32 \<times> word32 \<Rightarrow> hash_state" where
  "round256 s kw =
     (let a = s ! 0; b = s ! 1; c = s ! 2; d = s ! 3; e = s ! 4; f = s ! 5; g = s ! 6; h = s ! 7;
          T1 = h + Sigma1 e + Ch e f g + fst kw + snd kw;
          T2 = Sigma0 a + Maj a b c
      in [T1 + T2, a, b, c, d + T1, e, f, g])"

definition compress :: "hash_state \<Rightarrow> byte list \<Rightarrow> hash_state" where
  "compress H block =
     (let W = rev (schedule 48 (rev (map word_of_bytes (chunks 4 block))))
      in map2 (+) H (foldl round256 H (zip K256 W)))"

definition H256 :: hash_state where
  "H256 = [1779033703, 3144134277, 1013904242, 2773480762,
           1359893119, 2600822924, 528734635, 1541459225]"

definition sha256 :: "byte list \<Rightarrow> byte list" where
  "sha256 m = concat (map (\<lambda>w. be_bytes 4 (unat w)) (foldl compress H256 (chunks 64 (pad m))))"

definition hmac_sha256 :: "byte list \<Rightarrow> byte list \<Rightarrow> byte list" where
  "hmac_sha256 key m =
     (let k = (if length key > 64 then sha256 key else key);
          k' = k @ replicate (64 - length k) 0
      in sha256 (map (\<lambda>b. b XOR 0x5c) k' @ sha256 (map (\<lambda>b. b XOR 0x36) k' @ m)))"

definition hexDigit :: "nat \<Rightarrow> char" where
  "hexDigit d = (''0123456789abcdef'') ! d"

definition hex :: "byte list \<Rightarrow> string" where
  "hex bs = concat (map (\<lambda>b. [hexDigit (unat b div 16), hexDigit (unat b mod 16)]) bs)"

definition bytes_of :: "string \<Rightarrow> byte list" where
  "bytes_of s = map of_char s"

definition HMAC_SHA256_hex :: "string \<Rightarrow> string \<Rightarrow> string" where
  "HMAC_SHA256_hex key m = hex (hmac_sha256 (bytes_of key) (bytes_of m))"

text \<open>
  \<open>Buffer.from(string)\<close> gives the UTF-8 bytes of the string, which is the string as it is
  represented here. \<open>crypto.timingSafeEqual\<close> compares two buffers of the same byte
  length and throws a \<open>RangeError\<close> when the lengths differ.
\<close>

datatype error =
    WebhookVerificationError string
  | RangeError string

definition Buffer_from :: "string \<Rightarrow> string" where
  "Buffer_from s = s"

definition timingSafeEqual :: "string \<Rightarrow> string \<Rightarrow> error + bool" where
  "timingSafeEqual a b =
     (if length a \<noteq> length b
      then Inl (RangeError ''Input buffers must have the same byte length'')
      else Inr (a = b))"

section \<open>The platform's JSON parser\<close>

text \<open>
  \<open>JSON.parse\<close> (ECMA-404), without a reviver. A number keeps its lexeme, a string is
  decoded (escapes resolved) into its UTF-8 bytes, and an object keeps its members in
  source order; \<open>None\<close> stands for the \<open>SyntaxError\<close>.
\<close>

datatype json =
    JNull
  | JBool bool
  | JNumber string
  | JString string
  | JArray "json list"
  | JObject "(string \<times> json) list"

datatype token =
    LBrace | RBrace | LBracket | RBracket | Colon | Comma
  | TString string | TNumber string | TLiteral json

text \<open>A piece of a string literal: a byte of the text, or the code unit of a \<open>\uXXXX\<close> escape.\<close>

datatype str_item = Byte char | CodeUnit nat

text \<open>UTF-8 of a code point (for a lone surrogate, the same three-byte form).\<close>

definition utf8 :: "nat \<Rightarrow> string" where
  "utf8 n =
     (if n < 0x80 then [char_of n]
      else if n < 0x800 then [char_of (0xC0 + n div 64), char_of (0x80 + n mod 64)]
      else if n < 0x10000 then
        [char_of (0xE0 + n div 4096), char_of (0x80 + n div 64 mod 64), char_of (0x80 + n mod 64)]
      else
        [char_of (0xF0 + n div 262144), char_of (0x80 + n div 4096 mod 64),
         char_of (0x80 + n div 64 mod 64), char_of (0x80 + n mod 64)])"

fun decode_items :: "str_item list \<Rightarrow> string" where
  "decode_items [] = []"
| "decode_items (Byte c # r) = c # decode_items r"
| "decode_items (CodeUnit h # CodeUnit l # r) =
     (if 0xD800 \<le> h \<and> h < 0xDC00 \<and> 0xDC00 \<le> l \<and> l < 0xE000
      then utf8 (0x10000 + (h - 0xD800) * 1024 + (l - 0xDC00)) @ decode_items r
      else utf8 h @ decode_items (CodeUnit l # r))"
| "decode_items (CodeUnit u # r) = utf8 u @ decode_items r"

definition isHexDigit :: "char \<Rightarrow> bool" where
  "isHexDigit c \<longleftrightarrow> c \<in> set ''0123456789abcdefABCDEF''"

definition hexValue :: "char \<Rightarrow> nat" where
  "hexValue c =
     (if isDigit c then of_char c - 48
      else if c \<in> set ''abcdef'' then of_char c - 87
      else of_char c - 55)"

definition escape :: "char \<Rightarrow> char option" where
  "escape c =
     (if c = CHR 0x22 then Some (CHR 0x22)
      else if c = CHR 0x5C then Some (CHR 0x5C)
      else if c = CHR ''/'' then Some (CHR ''/'')
      else if c = CHR ''b'' then Some (CHR 0x08)
      else if c = CHR ''f'' then Some (CHR 0x0C)
      else if c = CHR ''n'' then Some (CHR 0x0A)
      else if c = CHR ''r'' then Some (CHR 0x0D)
      else if c = CHR ''t'' then Some (CHR 0x09)
      else None)"

text \<open>The number grammar: \<open>-? (0 | [1-9][0-9]*) (. [0-9]+)? ([eE] [+-]? [0-9]+)?\<close>.\<close>

definition exponent_ok :: "string \<Rightarrow> bool" where
  "exponent_ok s =
     (case s of
        [] \<Rightarrow> True
      | c # r \<Rightarrow>
          (c = CHR ''e'' \<or> c = CHR ''E'') \<and>
          (let ds = (case r of
                       [] \<Rightarrow> []
                     | d # r' \<Rightarrow> if d = CHR ''+'' \<or> d = CHR ''-'' then r' else r)
           in ds \<noteq> [] \<and> list_all isDigit ds))"

definition fraction_ok :: "string \<Rightarrow> bool" where
  "fraction_ok s =
     (case s of
        [] \<Rightarrow> True
      | c # r \<Rightarrow>
          if c = CHR ''.''
          then takeWhile isDigit r \<noteq> [] \<and> exponent_ok (dropWhile isDigit r)
          else exponent_ok s)"

definition number_ok :: "string \<Rightarrow> bool" where
  "number_ok s =
     (let s' = (case s of [] \<Rightarrow> [] | c # r \<Rightarrow> if c = CHR ''-'' then r else s);
          ds = takeWhile isDigit s'
      in ds \<noteq> [] \<and> (if hd ds = CHR ''0'' then length ds = 1 else True) \<and>
         fraction_ok (dropWhile isDigit s'))"

definition number_token :: "string \<Rightarrow> token option" where
  "number_token acc = (let s = rev acc in if number_ok s then Some (TNumber s) else None)"

definition word_token :: "string \<Rightarrow> token option" where
  "word_token acc =
     (let s = rev acc in
      if s = ''true'' then Some (TLiteral (JBool True))
      else if s = ''false'' then Some (TLiteral (JBool False))
      else if s = ''null'' then Some (TLiteral JNull)
      else None)"

datatype lex_state =
    Start
  | InString "str_item list"
  | InEscape "str_item list"
  | InHex "str_item list" "char list"
  | InNumber string
  | InWord string

definition isNumberChar :: "char \<Rightarrow> bool" where
  "isNumberChar c \<longleftrightarrow> isDigit c \<or> c \<in> set ''+-.eE''"

definition isWordChar :: "char \<Rightarrow> bool" where
  "isWordChar c \<longleftrightarrow> (97::nat) \<le> of_char c \<and> of_char c \<le> (122::nat)"

text \<open>What a character does outside a string, a number and a word.\<close>

definition start :: "char \<Rightarrow> (token list \<times> lex_state) option" where
  "start c =
     (if c \<in> set [CHR 0x20, CHR 0x09, CHR 0x0A, CHR 0x0D] then Some ([], Start)
      else if c = CHR ''{'' then Some ([LBrace], Start)
      else if c = CHR ''}'' then Some ([RBrace], Start)
      else if c = CHR ''['' then Some ([LBracket], Start)
      else if c = CHR '']'' then Some ([RBracket], Start)
      else if c = CHR '':'' then Some ([Colon], Start)
      else if c = CHR '','' then Some ([Comma], Start)
      else if c = CHR 0x22 then Some ([], InString [])
      else if c = CHR ''-'' \<or> isDigit c then Some ([], InNumber [c])
      else if isWordChar c then Some ([], InWord [c])
      else None)"

fun lex :: "lex_state \<Rightarrow> string \<Rightarrow> token list option" where
  "lex Start [] = Some []"
| "lex (InString acc) [] = None"
| "lex (InEscape acc) [] = None"
| "lex (InHex acc hs) [] = None"
| "lex (InNumber acc) [] = map_option (\<lambda>t. [t]) (number_token acc)"
| "lex (InWord acc) [] = map_option (\<lambda>t. [t]) (word_token acc)"
| "lex Start (c # cs) =
     (case start c of
        None \<Rightarrow> None
      | Some (ts, st) \<Rightarrow> map_option (\<lambda>r. ts @ r) (lex st cs))"
| "lex (InString acc) (c # cs) =
     (if c = CHR 0x22
      then map_option (\<lambda>r. TString (decode_items (rev acc)) # r) (lex Start cs)
      else if c = CHR 0x5C then lex (InEscape acc) cs
      else if (of_char c :: nat) < 0x20 then None
      else lex (InString (Byte c # acc)) cs)"
| "lex (InEscape acc) (c # cs) =
     (if c = CHR ''u'' then lex (InHex acc []) cs
      else case escape c of
             None \<Rightarrow> None
           | Some e \<Rightarrow> lex (InString (Byte e # acc)) cs)"
| "lex (InHex acc hs) (c # cs) =
     (if \<not> isHexDigit c then None
      else if length hs = 3
      then lex (InString
                 (CodeUnit (foldl (\<lambda>a h. 16 * a + hexValue h) 0 (rev (c # hs))) # acc)) cs
      else lex (InHex acc (c # hs)) cs)"
| "lex (InNumber acc) (c # cs) =
     (if isNumberChar c then lex (InNumber (c # acc)) cs
      else case number_token acc of
             None \<Rightarrow> None
           | Some t \<Rightarrow>
               (case start c of
                  None \<Rightarrow> None
                | Some (ts, st) \<Rightarrow> map_option (\<lambda>r. t # ts @ r) (lex st cs)))"
| "lex (InWord acc) (c # cs) =
     (if isWordChar c then lex (InWord (c # acc)) cs
      else case word_token acc of
             None \<Rightarrow> None
           | Some t \<Rightarrow>
               (case start c of
                  None \<Rightarrow> None
                | Some (ts, st) \<Rightarrow> map_option (\<lambda>r. t # ts @ r) (lex st cs)))"

text \<open>
  The parser keeps the containers that are still open on a stack (members and elements
  newest first) and what it expects next.
\<close>

datatype frame =
    InArray "json list"
  | InObject "(string \<times> json) list"
  | InMember "(string \<times> json) list" string

datatype expect =
    Value | ValueOrClose | KeyOrClose | Key | ColonNext | CommaOrClose | Done json

definition deliver :: "json \<Rightarrow> frame list \<Rightarrow> (expect \<times> frame list) option" where
  "deliver v stack =
     (case stack of
        [] \<Rightarrow> Some (Done v, [])
      | InArray es # st \<Rightarrow> Some (CommaOrClose, InArray (v # es) # st)
      | InMember ms k # st \<Rightarrow> Some (CommaOrClose, InObject ((k, v) # ms) # st)
      | InObject ms # st \<Rightarrow> None)"

definition value_token :: "token \<Rightarrow> frame list \<Rightarrow> (expect \<times> frame list) option" where
  "value_token t stack =
     (case t of
        TString s \<Rightarrow> deliver (JString s) stack
      | TNumber n \<Rightarrow> deliver (JNumber n) stack
      | TLiteral v \<Rightarrow> deliver v stack
      | LBracket \<Rightarrow> Some (ValueOrClose, InArray [] # stack)
      | LBrace \<Rightarrow> Some (KeyOrClose, InObject [] # stack)
      | _ \<Rightarrow> None)"

definition close_array :: "frame list \<Rightarrow> (expect \<times> frame list) option" where
  "close_array stack =
     (case stack of InArray es # st \<Rightarrow> deliver (JArray (rev es)) st | _ \<Rightarrow> None)"

definition close_object :: "frame list \<Rightarrow> (expect \<times> frame list) option" where
  "close_object stack =
     (case stack of InObject ms # st \<Rightarrow> deliver (JObject (rev ms)) st | _ \<Rightarrow> None)"

definition key_token :: "token \<Rightarrow> frame list \<Rightarrow> (expect \<times> frame list) option" where
  "key_token t stack =
     (case (t, stack) of
        (TString k, InObject ms # st) \<Rightarrow> Some (ColonNext, InMember ms k # st)
      | _ \<Rightarrow> None)"

definition step :: "expect \<times> frame list \<Rightarrow> token \<Rightarrow> (expect \<times> frame list) option" where
  "step state t =
     (case state of
        (Value, stack) \<Rightarrow> value_token t stack
      | (ValueOrClose, stack) \<Rightarrow>
          if t = RBracket then close_array stack else value_token t stack
      | (KeyOrClose, stack) \<Rightarrow>
          if t = RBrace then close_object stack else key_token t stack
      | (Key, stack) \<Rightarrow> key_token t stack
      | (ColonNext, stack) \<Rightarrow> if t = Colon then Some (Value, stack) else None
      | (CommaOrClose, stack) \<Rightarrow>
          (case stack of
             InArray es # st \<Rightarrow>
               if t = Comma then Some (Value, stack)
               else if t = RBracket then close_array stack else None
           | InObject ms # st \<Rightarrow>
               if t = Comma then Some (Key, stack)
               else if t = RBrace then close_object stack else None
           | _ \<Rightarrow> None)
      | (Done v, stack) \<Rightarrow> None)"

fun parse_tokens :: "expect \<times> frame list \<Rightarrow> token list \<Rightarrow> json option" where
  "parse_tokens state [] = (case state of (Done v, _) \<Rightarrow> Some v | _ \<Rightarrow> None)"
| "parse_tokens state (t # ts) =
     (case step state t of None \<Rightarrow> None | Some state' \<Rightarrow> parse_tokens state' ts)"

definition JSON_parse :: "string \<Rightarrow> json option" where
  "JSON_parse text =
     (case lex Start text of None \<Rightarrow> None | Some ts \<Rightarrow> parse_tokens (Value, []) ts)"

section \<open>The webhook handler\<close>

text \<open>
  \<open>WebhookVerificationOptions\<close> as the constructor reads it: both fields, and the
  options object itself, may be absent (\<open>options?.secret\<close>, \<open>options?.tolerance\<close>).
\<close>

record WebhookVerificationOptions =
  opt_secret :: "string option"
  opt_tolerance :: "int option"

record WebhookHandler =
  secret :: "string option"
  tolerance :: int

text \<open>The constructor; \<open>options?.tolerance || 300\<close> takes 300 for an absent and for a zero tolerance.\<close>

definition new_WebhookHandler :: "WebhookVerificationOptions option \<Rightarrow> WebhookHandler" where
  "new_WebhookHandler options =
     \<lparr> secret = (case options of None \<Rightarrow> None | Some opts \<Rightarrow> opt_secret opts),
       tolerance =
         (case (case options of None \<Rightarrow> None | Some opts \<Rightarrow> opt_tolerance opts) of
            None \<Rightarrow> 300
          | Some t \<Rightarrow> if t = 0 then 300 else t) \<rparr>"

text \<open>
  \<open>verifySignature\<close>. The clock is a parameter: \<open>now\<close> is the value of \<open>Date.now()\<close>, in
  milliseconds. \<open>!this.secret\<close> holds for an absent and for an empty secret.
\<close>

definition verifySignature ::
  "WebhookHandler \<Rightarrow> int \<Rightarrow> string \<Rightarrow> string \<Rightarrow> string \<Rightarrow> error + bool" where
  "verifySignature this now payload signature timestamp =
     (case secret this of
        None \<Rightarrow> Inl (WebhookVerificationError ''Webhook secret not configured'')
      | Some key \<Rightarrow>
          if key = [] then Inl (WebhookVerificationError ''Webhook secret not configured'')
          else
            let currentTime = now div 1000 in
            (case parseInt timestamp of
               None \<Rightarrow> Inl (WebhookVerificationError ''Invalid timestamp format'')
             | Some webhookTime \<Rightarrow>
                 if abs (currentTime - webhookTime) > tolerance this
                 then Inl (WebhookVerificationError
                             ''Webhook timestamp too old or from the future'')
                 else
                   let signedPayload = timestamp @ ''.'' @ payload;
                       expectedSignature = HMAC_SHA256_hex key signedPayload
                   in timingSafeEqual (Buffer_from signature) (Buffer_from expectedSignature)))"

text \<open>
  \<open>constructWebhookSignature\<close>, returning the pair \<open>(signature, timestamp)\<close>;
  \<open>timestamp || Math.floor(Date.now() / 1000)\<close> takes the clock for an absent and for a
  zero timestamp.
\<close>

definition constructWebhookSignature ::
  "int \<Rightarrow> string \<Rightarrow> string \<Rightarrow> int option \<Rightarrow> string \<times> string" where
  "constructWebhookSignature now payload key timestamp =
     (let ts = (case timestamp of
                  None \<Rightarrow> now div 1000
                | Some t \<Rightarrow> if t = 0 then now div 1000 else t);
          signedPayload = toString ts @ ''.'' @ payload;
          signature = HMAC_SHA256_hex key signedPayload
      in (signature, toString ts))"

text \<open>
  \<open>parseWebhook\<close>: verification runs only when a secret is configured; the payload is then
  parsed, and a \<open>SyntaxError\<close> of the parser is rethrown as a \<open>WebhookVerificationError\<close>.
\<close>

definition parseWebhook ::
  "WebhookHandler \<Rightarrow> int \<Rightarrow> string \<Rightarrow> string \<Rightarrow> string \<Rightarrow> error + json" where
  "parseWebhook this now rawPayload signature timestamp =
     (case (if secret this \<noteq> None \<and> secret this \<noteq> Some []
            then (case verifySignature this now rawPayload signature timestamp of
                    Inl e \<Rightarrow> Inl e
                  | Inr valid \<Rightarrow>
                      if \<not> valid
                      then Inl (WebhookVerificationError ''Invalid webhook signature'')
                      else Inr ())
            else Inr ()) of
        Inl e \<Rightarrow> Inl e
      | Inr _ \<Rightarrow>
          (case JSON_parse rawPayload of
             None \<Rightarrow> Inl (WebhookVerificationError ''Invalid webhook payload JSON'')
           | Some v \<Rightarrow> Inr v))"

text \<open>
  \<open>webhookMiddleware\<close>, as far as the response goes: the request gives the raw body and
  the two header values (absent or empty ones are refused); the outcome is either the
  call of \<open>next\<close> with the parsed webhook stored on the request, or a status with an error
  message. A \<open>WebhookVerificationError\<close> is answered with 401 and its message, any other
  error with 400.
\<close>

datatype response = Next json | Status nat string

definition webhookMiddleware ::
  "WebhookVerificationOptions \<Rightarrow> int \<Rightarrow> string \<Rightarrow> string option \<Rightarrow> string option \<Rightarrow> response" where
  "webhookMiddleware options now rawBody signature timestamp =
     (let handler = new_WebhookHandler (Some options) in
      case (signature, timestamp) of
        (Some sg, Some ts) \<Rightarrow>
          if sg = [] \<or> ts = [] then Status 400 ''Missing webhook headers''
          else
            (case parseWebhook handler now rawBody sg ts of
               Inr webhook \<Rightarrow> Next webhook
             | Inl (WebhookVerificationError message) \<Rightarrow> Status 401 message
             | Inl (RangeError message) \<Rightarrow> Status 400 ''Invalid webhook payload'')
      | _ \<Rightarrow> Status 400 ''Missing webhook headers'')"

section \<open>Event dispatch\<close>

text \<open>
  The envelope \<open>BaseWebhookPayload\<close> that \<open>on\<close> is typed to receive. The cast
  \<open>JSON.parse(rawPayload) as WebhookPayload\<close> checks nothing; \<open>as_WebhookPayload\<close> gives the
  typed view of a parsed value that has the envelope's fields (an own property of an
  object is its last member of that name).
\<close>

record BaseWebhookPayload =
  event :: string
  timestamp :: string
  webhook_id :: string
  api_version :: string
  data :: json

definition property :: "json \<Rightarrow> string \<Rightarrow> json option" where
  "property j k = (case j of JObject ms \<Rightarrow> map_of (rev ms) k | _ \<Rightarrow> None)"

definition string_property :: "json \<Rightarrow> string \<Rightarrow> string option" where
  "string_property j k = (case property j k of Some (JString s) \<Rightarrow> Some s | _ \<Rightarrow> None)"

definition as_WebhookPayload :: "json \<Rightarrow> BaseWebhookPayload option" where
  "as_WebhookPayload j =
     (case (string_property j ''event'', string_property j ''timestamp'',
            string_property j ''webhook_id'', string_property j ''api_version'',
            property j ''data'') of
        (Some e, Some t, Some w, Some a, Some (JObject d)) \<Rightarrow>
          Some \<lparr> event = e, timestamp = t, webhook_id = w, api_version = a, data = JObject d \<rparr>
      | _ \<Rightarrow> None)"

text \<open>
  A handler receives the event's data and may change the caller's state \<open>'s\<close> or fail:
  the result is the settled outcome of the call (\<open>Inl\<close> a thrown value or a rejection).
  The handlers object is an ordinary object: \<open>handlers[key]\<close> finds its own properties,
  the registered handlers, and otherwise what it inherits from \<open>Object.prototype\<close>, which
  is the prototype object itself under \<open>__proto__\<close> and a built-in method under eleven
  other names.
\<close>

datatype 'x thrown = TypeError string | Thrown 'x

type_synonym ('s, 'x) handler = "json \<Rightarrow> 's \<Rightarrow> 'x thrown + 's"

datatype ('s, 'x) jsvalue =
    Undefined
  | Function "('s, 'x) handler"
  | Builtin string
  | ObjectPrototype

definition Object_prototype_methods :: "string list" where
  "Object_prototype_methods =
     [''constructor'', ''__defineGetter__'', ''__defineSetter__'', ''hasOwnProperty'',
      ''__lookupGetter__'', ''__lookupSetter__'', ''isPrototypeOf'', ''propertyIsEnumerable'',
      ''toString'', ''valueOf'', ''toLocaleString'']"

definition Get :: "(string \<rightharpoonup> ('s, 'x) handler) \<Rightarrow> string \<Rightarrow> ('s, 'x) jsvalue" where
  "Get handlers key =
     (case handlers key of
        Some f \<Rightarrow> Function f
      | None \<Rightarrow>
          if key = ''__proto__'' then ObjectPrototype
          else if key \<in> set Object_prototype_methods then Builtin key
          else Undefined)"

text \<open>
  A built-in method of \<open>Object.prototype\<close> called as a plain function, so with \<open>this\<close>
  undefined: \<open>Object\<close> and \<open>toString\<close> return, \<open>isPrototypeOf\<close> returns unless its argument
  is an object, and the others throw a \<open>TypeError\<close> on converting \<open>this\<close> to an object.
\<close>

definition call_builtin :: "string \<Rightarrow> json \<Rightarrow> 's \<Rightarrow> 'x thrown + 's" where
  "call_builtin name arg st =
     (if name = ''constructor'' \<or> name = ''toString'' then Inr st
      else if name = ''isPrototypeOf'' \<and> (case arg of JObject _ \<Rightarrow> False | JArray _ \<Rightarrow> False | _ \<Rightarrow> True)
      then Inr st
      else Inl (TypeError ''Cannot convert undefined or null to object''))"

text \<open>The dispatch function that \<open>on(handlers)\<close> returns, applied to a webhook.\<close>

definition on ::
  "(string \<rightharpoonup> ('s, 'x) handler) \<Rightarrow> BaseWebhookPayload \<Rightarrow> 's \<Rightarrow> 'x thrown + 's" where
  "on handlers webhook st =
     (case Get handlers (event webhook) of
        Undefined \<Rightarrow> Inr st
      | Function handler \<Rightarrow> handler (data webhook) st
      | Builtin name \<Rightarrow> call_builtin name (data webhook) st
      | ObjectPrototype \<Rightarrow> Inl (TypeError ''handler is not a function''))"

section \<open>Facts about the host functions\<close>

lemma digitChar_isDigit: "d < 10 \<Longrightarrow> isDigit (digitChar d)"
  by (simp add: isDigit_def digitChar_def)

lemma digitValue_digitChar: "d < 10 \<Longrightarrow> digitValue (digitChar d) = d"
  by (simp add: digitValue_def digitChar_def)

lemma digits_all_digit: "c \<in> set (digits n) \<Longrightarrow> isDigit c"
proof (induction n arbitrary: c rule: digits.induct)
  case (1 n)
  show ?case
  proof (cases "n < 10")
    case True
    with "1.prems" show ?thesis
      by (simp add: digits.simps [of n] digitChar_isDigit)
  next
    case False
    with "1.prems" have "c \<in> set (digits (n div 10)) \<or> c = digitChar (n mod 10)"
      by (auto simp: digits.simps [of n])
    with False "1.IH" show ?thesis
      by (auto simp: digitChar_isDigit)
  qed
qed

lemma digits_nonempty: "digits n \<noteq> []"
  by (simp add: digits.simps [of n])

lemma digits_value: "foldl (\<lambda>a c. 10 * a + digitValue c) 0 (digits n) = n"
proof (induction n rule: digits.induct)
  case (1 n)
  show ?case
  proof (cases "n < 10")
    case True
    then show ?thesis
      by (simp add: digits.simps [of n] digitValue_digitChar)
  next
    case False
    with "1.IH" show ?thesis
      by (simp add: digits.simps [of n] digitValue_digitChar)
  qed
qed

lemma whiteSpace_first_byte:
  "w \<in> set whiteSpaceChars \<Longrightarrow> w \<noteq> [] \<and> \<not> isDigit (hd w) \<and> hd w \<noteq> CHR ''-''"
  by (auto simp: whiteSpaceChars_def isDigit_def)

lemma no_leadingWhiteSpace:
  assumes "s \<noteq> []" and "isDigit (hd s) \<or> hd s = CHR ''-''"
  shows "leadingWhiteSpace s = None"
proof -
  have "\<not> prefix w s" if "w \<in> set whiteSpaceChars" for w
  proof
    assume p: "prefix w s"
    from whiteSpace_first_byte [OF that] obtain a r where w: "w = a # r"
      and a: "\<not> isDigit a" "a \<noteq> CHR ''-''"
      by (cases w) auto
    from assms(1) obtain c cs where s: "s = c # cs" by (cases s) auto
    from p w s have "a = c" by simp
    with a assms(2) s show False by simp
  qed
  then show ?thesis
    by (auto simp: leadingWhiteSpace_def find_None_iff)
qed

lemma trimStart_id:
  "s \<noteq> [] \<Longrightarrow> isDigit (hd s) \<or> hd s = CHR ''-'' \<Longrightarrow> trimStart s = s"
  by (simp add: trimStart.simps [of s] no_leadingWhiteSpace)

lemma parseInt_digits: "parseInt (digits n) = Some (int n)"
proof -
  have ne: "digits n \<noteq> []" by (rule digits_nonempty)
  have hd: "isDigit (hd (digits n))"
    using ne by (intro digits_all_digit [of _ n]) simp
  have tw: "takeWhile isDigit (digits n) = digits n"
    by (simp add: digits_all_digit)
  have nosign: "hd (digits n) \<noteq> CHR ''-''" "hd (digits n) \<noteq> CHR ''+''"
    using hd by (auto simp: isDigit_def)
  have tr: "trimStart (digits n) = digits n"
    using ne hd by (simp add: trimStart_id)
  show ?thesis
    by (simp add: parseInt_def Let_def tr tw ne nosign digits_value)
qed

lemma parseInt_minus_digits: "parseInt (CHR ''-'' # digits n) = Some (- int n)"
proof -
  have tw: "takeWhile isDigit (digits n) = digits n"
    by (simp add: digits_all_digit)
  have tr: "trimStart (CHR ''-'' # digits n) = CHR ''-'' # digits n"
    by (simp add: trimStart_id)
  show ?thesis
    by (simp add: parseInt_def Let_def tr tw digits_nonempty digits_value)
qed

lemma parseInt_toString: "parseInt (toString n) = Some n"
  by (simp add: toString_def parseInt_digits parseInt_minus_digits)

lemma length_be_bytes: "length (be_bytes k n) = k"
  by (induction k arbitrary: n) simp_all

lemma length_round256: "length (round256 s kw) = 8"
  by (simp add: round256_def Let_def)

lemma length_rounds: "xs \<noteq> [] \<Longrightarrow> length (foldl round256 s xs) = 8"
  by (induction xs rule: rev_induct) (simp_all add: length_round256)

lemma length_schedule: "length (schedule k w) = k + length w"
  by (induction k arbitrary: w) simp_all

lemma length_K256: "length K256 = 64"
  by (simp add: K256_def)

lemma length_compress: "length H = 8 \<Longrightarrow> length (compress H block) = 8"
proof -
  assume H: "length H = 8"
  let ?W = "rev (schedule 48 (rev (map word_of_bytes (chunks 4 block))))"
  have "length (zip K256 ?W) \<noteq> 0"
    by (simp add: length_K256 length_schedule)
  then have "zip K256 ?W \<noteq> []" by (simp del: length_zip)
  then have "length (foldl round256 H (zip K256 ?W)) = 8"
    by (rule length_rounds)
  with H show ?thesis
    by (simp add: compress_def Let_def)
qed

lemma length_blocks: "length H = 8 \<Longrightarrow> length (foldl compress H bs) = 8"
  by (induction bs arbitrary: H) (simp_all add: length_compress)

lemma length_concat_be: "length (concat (map (\<lambda>w. be_bytes 4 (unat w)) ws)) = 4 * length ws"
  by (induction ws) (simp_all add: length_be_bytes)

lemma length_sha256: "length (sha256 m) = 32"
proof -
  have "length H256 = 8" by (simp add: H256_def)
  then have "length (foldl compress H256 (chunks 64 (pad m))) = 8"
    by (rule length_blocks)
  then show ?thesis
    by (simp add: sha256_def length_concat_be)
qed

lemma length_hex: "length (hex bs) = 2 * length bs"
  by (induction bs) (simp_all add: hex_def)

lemma length_HMAC_SHA256_hex: "length (HMAC_SHA256_hex key m) = 64"
  by (simp add: HMAC_SHA256_hex_def hmac_sha256_def Let_def length_hex length_sha256)

section \<open>Signature verification\<close>

lemma verifySignature_unconfigured:
  "secret this = None \<or> secret this = Some [] \<Longrightarrow>
   verifySignature this now payload signature tstamp =
     Inl (WebhookVerificationError ''Webhook secret not configured'')"
  by (auto simp: verifySignature_def)

lemma verifySignature_format:
  "secret this = Some key \<Longrightarrow> key \<noteq> [] \<Longrightarrow> parseInt tstamp = None \<Longrightarrow>
   verifySignature this now payload signature tstamp =
     Inl (WebhookVerificationError ''Invalid timestamp format'')"
  by (simp add: verifySignature_def)

lemma verifySignature_stale:
  "secret this = Some key \<Longrightarrow> key \<noteq> [] \<Longrightarrow> parseInt tstamp = Some webhookTime \<Longrightarrow>
   tolerance this < abs (now div 1000 - webhookTime) \<Longrightarrow>
   verifySignature this now payload signature tstamp =
     Inl (WebhookVerificationError ''Webhook timestamp too old or from the future'')"
  by (simp add: verifySignature_def)

lemma verifySignature_fresh:
  "secret this = Some key \<Longrightarrow> key \<noteq> [] \<Longrightarrow> parseInt tstamp = Some webhookTime \<Longrightarrow>
   abs (now div 1000 - webhookTime) \<le> tolerance this \<Longrightarrow>
   verifySignature this now payload signature tstamp =
     timingSafeEqual signature (HMAC_SHA256_hex key (tstamp @ ''.'' @ payload))"
  by (simp add: verifySignature_def Buffer_from_def)

lemma timingSafeEqual_same: "timingSafeEqual a a = Inr True"
  by (simp add: timingSafeEqual_def)

lemma constructWebhookSignature_eq:
  "constructWebhookSignature now p key t =
     (let ts = (case t of None \<Rightarrow> now div 1000 | Some n \<Rightarrow> if n = 0 then now div 1000 else n)
      in (HMAC_SHA256_hex key (toString ts @ ''.'' @ p), toString ts))"
  by (simp add: constructWebhookSignature_def Let_def)

text \<open>
  Claim C1, as the code has it. Signing a payload with \<open>constructWebhookSignature\<close> and
  verifying the returned signature and timestamp with a handler that holds the same,
  non-empty secret returns \<open>true\<close>, provided the verifier's clock is within the handler's
  tolerance of the signed timestamp (the given one, or the signer's clock when it is
  absent or zero).
\<close>

theorem roundtrip_within_tolerance:
  assumes "secret this = Some key" and "key \<noteq> []"
    and "abs (now' div 1000 -
              (case t of None \<Rightarrow> now div 1000 | Some n \<Rightarrow> if n = 0 then now div 1000 else n))
           \<le> tolerance this"
  shows "verifySignature this now' p
           (fst (constructWebhookSignature now p key t))
           (snd (constructWebhookSignature now p key t)) = Inr True"
proof -
  define ts where
    "ts = (case t of None \<Rightarrow> now div 1000 | Some n \<Rightarrow> if n = 0 then now div 1000 else n)"
  have c: "constructWebhookSignature now p key t =
             (HMAC_SHA256_hex key (toString ts @ ''.'' @ p), toString ts)"
    by (simp add: constructWebhookSignature_eq ts_def Let_def)
  have "verifySignature this now' p (HMAC_SHA256_hex key (toString ts @ ''.'' @ p)) (toString ts)
          = timingSafeEqual (HMAC_SHA256_hex key (toString ts @ ''.'' @ p))
              (HMAC_SHA256_hex key (toString ts @ ''.'' @ p))"
    using assms
    by (intro verifySignature_fresh [where webhookTime = ts])
       (simp_all add: parseInt_toString ts_def)
  then show ?thesis
    by (simp add: c timingSafeEqual_same)
qed

theorem roundtrip_within_tolerance_witness:
  "verifySignature
     (new_WebhookHandler (Some \<lparr>opt_secret = Some ''whsec_test'', opt_tolerance = None\<rparr>))
     1700000123000 ''{}''
     (fst (constructWebhookSignature 1700000000000 ''{}'' ''whsec_test'' (Some 1700000000)))
     (snd (constructWebhookSignature 1700000000000 ''{}'' ''whsec_test'' (Some 1700000000)))
   = Inr True"
  using roundtrip_within_tolerance
    [where this = "new_WebhookHandler
                     (Some \<lparr>opt_secret = Some ''whsec_test'', opt_tolerance = None\<rparr>)"
       and key = "''whsec_test''" and now' = 1700000123000 and t = "Some 1700000000"
       and now = 1700000000000 and p = "''{}''"]
  by (simp add: new_WebhookHandler_def)

text \<open>
  Claim C1 as stated fails: a payload signed for the Unix time 1 and verified at the Unix
  time 1700000000 is refused as stale, whatever the signature.
\<close>

theorem roundtrip_stale_counterexample:
  "verifySignature
     (new_WebhookHandler (Some \<lparr>opt_secret = Some ''whsec_test'', opt_tolerance = None\<rparr>))
     1700000000000 ''{}''
     (fst (constructWebhookSignature 1700000000000 ''{}'' ''whsec_test'' (Some 1)))
     (snd (constructWebhookSignature 1700000000000 ''{}'' ''whsec_test'' (Some 1)))
   = Inl (WebhookVerificationError ''Webhook timestamp too old or from the future'')"
  by (simp add: constructWebhookSignature_eq Let_def new_WebhookHandler_def
      verifySignature_stale [where webhookTime = 1 and key = "''whsec_test''"] parseInt_toString)

lemma parseInt_1700000000: "parseInt ''1700000000'' = Some 1700000000"
  by (simp add: parseInt_def Let_def trimStart_id isDigit_def digitValue_def)

lemma parseInt_1700000000abc: "parseInt ''1700000000abc'' = Some 1700000000"
  by (simp add: parseInt_def Let_def trimStart_id isDigit_def digitValue_def)

lemma parseInt_abc: "parseInt ''abc'' = None"
  by (simp add: parseInt_def Let_def trimStart.simps [of "''abc''"] leadingWhiteSpace_def
      whiteSpaceChars_def isDigit_def)

lemma verifySignature_length_mismatch:
  "secret this = Some key \<Longrightarrow> key \<noteq> [] \<Longrightarrow> parseInt tstamp = Some webhookTime \<Longrightarrow>
   abs (now div 1000 - webhookTime) \<le> tolerance this \<Longrightarrow> length signature \<noteq> 64 \<Longrightarrow>
   verifySignature this now payload signature tstamp =
     Inl (RangeError ''Input buffers must have the same byte length'')"
  by (simp add: verifySignature_fresh timingSafeEqual_def length_HMAC_SHA256_hex)

lemma verifySignature_same_length:
  "secret this = Some key \<Longrightarrow> key \<noteq> [] \<Longrightarrow> parseInt tstamp = Some webhookTime \<Longrightarrow>
   abs (now div 1000 - webhookTime) \<le> tolerance this \<Longrightarrow> length signature = 64 \<Longrightarrow>
   verifySignature this now payload signature tstamp =
     Inr (signature = HMAC_SHA256_hex key (tstamp @ ''.'' @ payload))"
  by (simp add: verifySignature_fresh timingSafeEqual_def length_HMAC_SHA256_hex)

text \<open>
  Claim C2 at a failing input: with a configured secret and a fresh integer timestamp, a
  supplied signature of three bytes does not make \<open>verifySignature\<close> return \<open>false\<close>; the
  comparison primitive throws a \<open>RangeError\<close>, which is not a \<open>WebhookVerificationError\<close>.
\<close>

theorem short_signature_raises:
  "verifySignature
     (new_WebhookHandler (Some \<lparr>opt_secret = Some ''whsec_test'', opt_tolerance = None\<rparr>))
     1700000000000 ''{}'' ''abc'' ''1700000000''
   = Inl (RangeError ''Input buffers must have the same byte length'')"
  by (simp add: verifySignature_fresh [where webhookTime = 1700000000 and key = "''whsec_test''"]
      new_WebhookHandler_def parseInt_1700000000 timingSafeEqual_def length_HMAC_SHA256_hex)

text \<open>
  Claim C4. With a tolerance of 300 seconds (the constructor's default) and a configured
  secret, a correctly signed payload stamped exactly 300 seconds before or after the
  verifier's clock is accepted, and a payload stamped 301 seconds before or after it is
  refused as stale whatever signature comes with it.
\<close>

theorem staleness_boundary:
  assumes "secret this = Some key" and "key \<noteq> []" and "tolerance this = 300"
  shows "verifySignature this now p
           (HMAC_SHA256_hex key (toString (now div 1000 - 300) @ ''.'' @ p))
           (toString (now div 1000 - 300)) = Inr True
       \<and> verifySignature this now p
           (HMAC_SHA256_hex key (toString (now div 1000 + 300) @ ''.'' @ p))
           (toString (now div 1000 + 300)) = Inr True
       \<and> verifySignature this now p signature (toString (now div 1000 - 301))
           = Inl (WebhookVerificationError ''Webhook timestamp too old or from the future'')
       \<and> verifySignature this now p signature (toString (now div 1000 + 301))
           = Inl (WebhookVerificationError ''Webhook timestamp too old or from the future'')"
proof -
  have fresh: "verifySignature this now p
                 (HMAC_SHA256_hex key (toString (now div 1000 + d) @ ''.'' @ p))
                 (toString (now div 1000 + d)) = Inr True" if "abs d \<le> 300" for d
  proof -
    have "abs (now div 1000 - (now div 1000 + d)) \<le> tolerance this"
      using that assms(3) by simp
    then show ?thesis
      using assms(1,2)
      by (simp add: verifySignature_fresh [where webhookTime = "now div 1000 + d"]
          parseInt_toString timingSafeEqual_same)
  qed
  have stale: "verifySignature this now p signature (toString (now div 1000 + d))
                 = Inl (WebhookVerificationError ''Webhook timestamp too old or from the future'')"
    if "300 < abs d" for d
  proof -
    have "tolerance this < abs (now div 1000 - (now div 1000 + d))"
      using that assms(3) by simp
    then show ?thesis
      using assms(1,2)
      by (simp add: verifySignature_stale [where webhookTime = "now div 1000 + d"]
          parseInt_toString)
  qed
  from fresh [of "- 300"] fresh [of 300] stale [of "- 301"] stale [of 301]
  show ?thesis by simp
qed

theorem staleness_boundary_witness:
  "verifySignature
     (new_WebhookHandler (Some \<lparr>opt_secret = Some ''whsec_test'', opt_tolerance = None\<rparr>))
     1700000000999 ''{}''
     (HMAC_SHA256_hex ''whsec_test'' (toString (1700000000999 div 1000 - 300) @ ''.'' @ ''{}''))
     (toString (1700000000999 div 1000 - 300)) = Inr True
   \<and> verifySignature
     (new_WebhookHandler (Some \<lparr>opt_secret = Some ''whsec_test'', opt_tolerance = None\<rparr>))
     1700000000999 ''{}''
     (HMAC_SHA256_hex ''whsec_test'' (toString (1700000000999 div 1000 - 301) @ ''.'' @ ''{}''))
     (toString (1700000000999 div 1000 - 301))
     = Inl (WebhookVerificationError ''Webhook timestamp too old or from the future'')"
  using staleness_boundary
    [where this = "new_WebhookHandler
                     (Some \<lparr>opt_secret = Some ''whsec_test'', opt_tolerance = None\<rparr>)"
       and key = "''whsec_test''" and now = 1700000000999 and p = "''{}''"
       and signature = "HMAC_SHA256_hex ''whsec_test''
                          (toString (1700000000999 div 1000 - 301) @ ''.'' @ ''{}'')"]
  by (simp add: new_WebhookHandler_def)

text \<open>
  Claim C10. A tolerance of 0 given to the constructor yields a handler whose tolerance
  is 300; no options yield a tolerance of 0; and the handler built with tolerance 0
  accepts a correctly signed payload stamped up to 300 seconds from the verifier's clock.
\<close>

theorem zero_tolerance_is_default:
  assumes "key \<noteq> []" and "abs d \<le> 300"
  shows "tolerance (new_WebhookHandler (Some \<lparr>opt_secret = s, opt_tolerance = Some 0\<rparr>)) = 300
       \<and> tolerance (new_WebhookHandler options) \<noteq> 0
       \<and> verifySignature
            (new_WebhookHandler (Some \<lparr>opt_secret = Some key, opt_tolerance = Some 0\<rparr>))
            now p
            (HMAC_SHA256_hex key (toString (now div 1000 + d) @ ''.'' @ p))
            (toString (now div 1000 + d)) = Inr True"
proof -
  let ?h = "new_WebhookHandler (Some \<lparr>opt_secret = Some key, opt_tolerance = Some 0\<rparr>)"
  have t: "tolerance (new_WebhookHandler (Some \<lparr>opt_secret = s, opt_tolerance = Some 0\<rparr>)) = 300"
    for s by (simp add: new_WebhookHandler_def)
  have nz: "tolerance (new_WebhookHandler options) \<noteq> 0"
    by (simp add: new_WebhookHandler_def split: option.splits)
  have "abs (now div 1000 - (now div 1000 + d)) \<le> tolerance ?h"
    using assms(2) by (simp add: t)
  moreover have "secret ?h = Some key"
    by (simp add: new_WebhookHandler_def)
  ultimately have "verifySignature ?h now p
            (HMAC_SHA256_hex key (toString (now div 1000 + d) @ ''.'' @ p))
            (toString (now div 1000 + d)) = Inr True"
    using assms(1)
    by (simp add: verifySignature_fresh [where webhookTime = "now div 1000 + d"]
        parseInt_toString timingSafeEqual_same)
  with t nz show ?thesis by simp
qed

theorem zero_tolerance_is_default_witness:
  "tolerance (new_WebhookHandler
       (Some \<lparr>opt_secret = Some ''whsec_test'', opt_tolerance = Some 0\<rparr>)) = 300
   \<and> tolerance (new_WebhookHandler None) \<noteq> 0
   \<and> verifySignature
        (new_WebhookHandler (Some \<lparr>opt_secret = Some ''whsec_test'', opt_tolerance = Some 0\<rparr>))
        1700000000000 ''{}''
        (HMAC_SHA256_hex ''whsec_test'' (toString (1700000000000 div 1000 + 300) @ ''.'' @ ''{}''))
        (toString (1700000000000 div 1000 + 300)) = Inr True"
  using zero_tolerance_is_default
    [where key = "''whsec_test''" and d = 300 and s = "Some ''whsec_test''" and options = None
       and now = 1700000000000 and p = "''{}''"]
  by simp

lemma parseInt_None_iff:
  "(parseInt tstamp = None)
     = (let S = trimStart tstamp;
            S' = (if S \<noteq> [] \<and> (hd S = CHR ''+'' \<or> hd S = CHR ''-'') then tl S else S)
        in S' = [] \<or> \<not> isDigit (hd S'))"
  by (simp add: parseInt_def Let_def takeWhile_eq_Nil_iff)

text \<open>
  Claim C5, as the code has it. With a configured secret, \<open>verifySignature\<close> raises the
  format failure exactly when \<open>parseInt\<close> gives \<open>NaN\<close>, which is when no decimal digit
  follows the leading white space and an optional sign.
\<close>

theorem timestamp_format_failure:
  assumes "secret this = Some key" and "key \<noteq> []"
  shows "((verifySignature this now p signature tstamp
            = Inl (WebhookVerificationError ''Invalid timestamp format''))
          = (parseInt tstamp = None))
       \<and> ((parseInt tstamp = None)
          = (let S = trimStart tstamp;
                 S' = (if S \<noteq> [] \<and> (hd S = CHR ''+'' \<or> hd S = CHR ''-'') then tl S else S)
             in S' = [] \<or> \<not> isDigit (hd S')))"
proof
  show "(verifySignature this now p signature tstamp
            = Inl (WebhookVerificationError ''Invalid timestamp format''))
          = (parseInt tstamp = None)"
    using assms
    by (auto simp: verifySignature_def Let_def timingSafeEqual_def split: option.splits)
next
  show "(parseInt tstamp = None)
          = (let S = trimStart tstamp;
                 S' = (if S \<noteq> [] \<and> (hd S = CHR ''+'' \<or> hd S = CHR ''-'') then tl S else S)
             in S' = [] \<or> \<not> isDigit (hd S'))"
    by (rule parseInt_None_iff)
qed

theorem timestamp_format_failure_witness:
  "(verifySignature
      (new_WebhookHandler (Some \<lparr>opt_secret = Some ''whsec_test'', opt_tolerance = None\<rparr>))
      1700000000000 ''{}'' ''00'' ''abc''
        = Inl (WebhookVerificationError ''Invalid timestamp format''))
   \<and> parseInt ''abc'' = None"
  using timestamp_format_failure
    [where this = "new_WebhookHandler
                     (Some \<lparr>opt_secret = Some ''whsec_test'', opt_tolerance = None\<rparr>)"
       and key = "''whsec_test''" and now = 1700000000000 and p = "''{}''"
       and signature = "''00''" and tstamp = "''abc''"]
  by (simp add: new_WebhookHandler_def parseInt_abc)

text \<open>
  Claim C5 as stated fails: the timestamp \<open>1700000000abc\<close> holds non-digit characters, and
  it is read as 1700000000; with the signature made over the text as sent the call
  returns \<open>true\<close>.
\<close>

theorem timestamp_trailing_text_counterexample:
  "verifySignature
     (new_WebhookHandler (Some \<lparr>opt_secret = Some ''whsec_test'', opt_tolerance = None\<rparr>))
     1700000000000 ''{}''
     (HMAC_SHA256_hex ''whsec_test'' (''1700000000abc'' @ ''.'' @ ''{}''))
     ''1700000000abc'' = Inr True"
  by (simp add: verifySignature_fresh [where webhookTime = 1700000000 and key = "''whsec_test''"]
      new_WebhookHandler_def parseInt_1700000000abc timingSafeEqual_same
      del: append.simps)

section \<open>Parsing a webhook\<close>

lemma JSON_parse_empty_object: "JSON_parse ''{}'' = Some (JObject [])"
  by code_simp

lemma JSON_parse_open_brace: "JSON_parse ''{'' = None"
  by code_simp

lemma parseWebhook_unconfigured:
  "secret this = None \<or> secret this = Some [] \<Longrightarrow>
   parseWebhook this now p signature tstamp =
     (case JSON_parse p of
        None \<Rightarrow> Inl (WebhookVerificationError ''Invalid webhook payload JSON'')
      | Some v \<Rightarrow> Inr v)"
  by (auto simp: parseWebhook_def)

lemma parseWebhook_configured:
  "secret this = Some key \<Longrightarrow> key \<noteq> [] \<Longrightarrow>
   parseWebhook this now p signature tstamp =
     (case verifySignature this now p signature tstamp of
        Inl e \<Rightarrow> Inl e
      | Inr valid \<Rightarrow>
          if valid
          then (case JSON_parse p of
                  None \<Rightarrow> Inl (WebhookVerificationError ''Invalid webhook payload JSON'')
                | Some v \<Rightarrow> Inr v)
          else Inl (WebhookVerificationError ''Invalid webhook signature''))"
  by (auto simp: parseWebhook_def split: sum.splits)

text \<open>
  Claim C3, as the code has it. On a handler without a secret (absent or empty),
  \<open>verifySignature\<close> raises the error that no secret is configured, for every payload,
  signature and timestamp; \<open>parseWebhook\<close> skips verification and goes on to parse: it
  returns the parsed payload, or raises the error of a payload that is not JSON.
\<close>

theorem unconfigured_secret:
  assumes "secret this = None \<or> secret this = Some []"
  shows "verifySignature this now p signature tstamp
           = Inl (WebhookVerificationError ''Webhook secret not configured'')
       \<and> parseWebhook this now p signature tstamp
           = (case JSON_parse p of
                None \<Rightarrow> Inl (WebhookVerificationError ''Invalid webhook payload JSON'')
              | Some v \<Rightarrow> Inr v)"
  using assms by (simp add: verifySignature_unconfigured parseWebhook_unconfigured)

theorem unconfigured_secret_witness:
  "verifySignature (new_WebhookHandler None) 1700000000000 ''{}'' ''abc'' ''1700000000''
     = Inl (WebhookVerificationError ''Webhook secret not configured'')
   \<and> parseWebhook (new_WebhookHandler None) 1700000000000 ''{'' ''abc'' ''1700000000''
     = Inl (WebhookVerificationError ''Invalid webhook payload JSON'')"
  using unconfigured_secret [where this = "new_WebhookHandler None" and now = 1700000000000
      and p = "''{}''" and signature = "''abc''" and tstamp = "''1700000000''"]
    unconfigured_secret [where this = "new_WebhookHandler None" and now = 1700000000000
      and p = "''{''" and signature = "''abc''" and tstamp = "''1700000000''"]
  by (simp add: new_WebhookHandler_def JSON_parse_open_brace)

text \<open>
  Claim C3 as stated fails for \<open>parseWebhook\<close>: without a secret the payload \<open>{}\<close> is
  parsed and returned, whatever the signature.
\<close>

theorem unconfigured_parse_counterexample:
  "parseWebhook (new_WebhookHandler None) 1700000000000 ''{}'' ''abc'' ''1700000000''
     = Inr (JObject [])"
  by (simp add: parseWebhook_unconfigured new_WebhookHandler_def JSON_parse_empty_object)

text \<open>
  Claim C6 at a failing input: with a configured secret, a payload that is not JSON and
  a supplied signature of three bytes, \<open>parseWebhook\<close> fails with the \<open>RangeError\<close> of
  the comparison primitive, not with a \<open>WebhookVerificationError\<close>.
\<close>

theorem malformed_payload_short_signature_raises:
  "JSON_parse ''{'' = None
   \<and> parseWebhook
     (new_WebhookHandler (Some \<lparr>opt_secret = Some ''whsec_test'', opt_tolerance = None\<rparr>))
     1700000000000 ''{'' ''abc'' ''1700000000''
   = Inl (RangeError ''Input buffers must have the same byte length'')"
  by (simp add: parseWebhook_configured [where key = "''whsec_test''"]
      verifySignature_length_mismatch [where webhookTime = 1700000000 and key = "''whsec_test''"]
      new_WebhookHandler_def parseInt_1700000000 JSON_parse_open_brace)

lemma webhookMiddleware_short_signature:
  "webhookMiddleware \<lparr>opt_secret = Some ''whsec_test'', opt_tolerance = None\<rparr>
     1700000000000 ''{'' (Some ''abc'') (Some ''1700000000'')
   = Status 400 ''Invalid webhook payload''"
  by (simp add: webhookMiddleware_def Let_def
      parseWebhook_configured [where key = "''whsec_test''"]
      verifySignature_length_mismatch [where webhookTime = 1700000000 and key = "''whsec_test''"]
      new_WebhookHandler_def parseInt_1700000000)

section \<open>Dispatching an event\<close>

lemma on_unregistered:
  "handlers (event webhook) = None \<Longrightarrow> event webhook \<noteq> ''__proto__'' \<Longrightarrow>
   event webhook \<notin> set Object_prototype_methods \<Longrightarrow> on handlers webhook st = Inr st"
  by (simp add: on_def Get_def)

text \<open>
  Claim C8. When the event's tag has a registered handler, the outcome of the dispatch
  function is the outcome of that handler on the event's data and the caller's state:
  its new state when it completes, and its failure, unchanged, when it throws or rejects.
\<close>

theorem handler_failure_propagates:
  assumes "handlers (event webhook) = Some handler"
  shows "on handlers webhook st = handler (data webhook) st"
  using assms by (simp add: on_def Get_def)

theorem handler_failure_propagates_witness:
  "on [''screening.completed'' \<mapsto> (\<lambda>d (st::nat). Inl (Thrown ''payment store unavailable'')),
       ''screening.failed'' \<mapsto> (\<lambda>d st. Inr (st + 1))]
      \<lparr>event = ''screening.completed'', timestamp = ''2024-01-01T00:00:00Z'',
       webhook_id = ''wh_1'', api_version = ''1.0'', data = JObject []\<rparr> 0
   = Inl (Thrown ''payment store unavailable'')"
  using handler_failure_propagates
    [where handlers = "[''screening.completed'' \<mapsto> (\<lambda>d (st::nat). Inl (Thrown ''payment store unavailable'')),
                        ''screening.failed'' \<mapsto> (\<lambda>d st. Inr (st + 1))]"
       and webhook = "\<lparr>event = ''screening.completed'', timestamp = ''2024-01-01T00:00:00Z'',
                        webhook_id = ''wh_1'', api_version = ''1.0'', data = JObject []\<rparr>"
       and handler = "\<lambda>d (st::nat). Inl (Thrown ''payment store unavailable'')" and st = 0]
  by simp

lemma on_unknown_tag_example:
  "on [''screening.completed'' \<mapsto> (\<lambda>d (st::nat). Inr (st + 1)),
       ''screening.failed'' \<mapsto> (\<lambda>d st. Inr (st + 2))]
      \<lparr>event = ''invite.sent'', timestamp = ''2024-01-01T00:00:00Z'',
       webhook_id = ''wh_3'', api_version = ''1.0'', data = JObject []\<rparr> 0
     = (Inr 0 :: unit thrown + nat)"
  by (simp add: on_def Get_def Object_prototype_methods_def)

lemma JSON_parse_proto:
  \<open>JSON_parse ''{"event":"__proto__","timestamp":"2024-01-01T00:00:00Z","webhook_id":"wh_2","api_version":"1.0","data":{}}''
   = Some (JObject
       [(''event'', JString ''__proto__''),
        (''timestamp'', JString ''2024-01-01T00:00:00Z''),
        (''webhook_id'', JString ''wh_2''),
        (''api_version'', JString ''1.0''),
        (''data'', JObject [])])\<close>
  by code_simp

text \<open>
  Claim C7 at a failing input. The payload is well-formed JSON with the tag \<open>__proto__\<close>,
  which is none of the known tags, and it decodes; handlers are registered for
  \<open>screening.completed\<close> and \<open>screening.failed\<close> only, so the tag has no registered handler;
  and the dispatch function does not return normally: the lookup finds the inherited
  prototype object, and calling it throws a \<open>TypeError\<close>.
\<close>

theorem inherited_property_dispatch_raises:
  \<open>Option.bind
      (JSON_parse ''{"event":"__proto__","timestamp":"2024-01-01T00:00:00Z","webhook_id":"wh_2","api_version":"1.0","data":{}}'')
      as_WebhookPayload
     = Some \<lparr>event = ''__proto__'', timestamp = ''2024-01-01T00:00:00Z'',
              webhook_id = ''wh_2'', api_version = ''1.0'', data = JObject []\<rparr>
   \<and> [''screening.completed'' \<mapsto> (\<lambda>d (st::nat). Inr (st + 1)),
       ''screening.failed'' \<mapsto> (\<lambda>d st. Inr (st + 2))] ''__proto__'' = None
   \<and> on [''screening.completed'' \<mapsto> (\<lambda>d (st::nat). Inr (st + 1)),
         ''screening.failed'' \<mapsto> (\<lambda>d st. Inr (st + 2))]
        \<lparr>event = ''__proto__'', timestamp = ''2024-01-01T00:00:00Z'',
         webhook_id = ''wh_2'', api_version = ''1.0'', data = JObject []\<rparr> 0
     = (Inl (TypeError ''handler is not a function'') :: unit thrown + nat)\<close>
  unfolding JSON_parse_proto
  by (simp add: property_def string_property_def as_WebhookPayload_def on_def Get_def)

section \<open>The scenario of the specification\<close>

lemma JSON_parse_scenario:
  \<open>JSON_parse ''{"event":"screening.failed","timestamp":"2024-01-01T00:00:00Z","webhook_id":"wh_1","api_version":"1.0","data":{"purchase_token":"abc","external_customer_id":"c1","external_tenant_id":"t1","status":"failed","reason":"no_response","errors":["tenant_timeout"]}}''
   = Some (JObject
       [(''event'', JString ''screening.failed''),
        (''timestamp'', JString ''2024-01-01T00:00:00Z''),
        (''webhook_id'', JString ''wh_1''),
        (''api_version'', JString ''1.0''),
        (''data'', JObject
           [(''purchase_token'', JString ''abc''),
            (''external_customer_id'', JString ''c1''),
            (''external_tenant_id'', JString ''t1''),
            (''status'', JString ''failed''),
            (''reason'', JString ''no_response''),
            (''errors'', JArray [JString ''tenant_timeout''])])])\<close>
  by code_simp

text \<open>
  Claim C9. For the payload of the scenario, the secret \<open>whsec_test\<close> and the timestamp
  \<open>1700000000\<close>, the signature computed as the hexadecimal HMAC-SHA256 of
  \<open>1700000000.\<close> followed by the payload makes \<open>verifySignature\<close> return \<open>true\<close> at the
  clock 1700000000 (in seconds), and \<open>parseWebhook\<close> returns an event whose \<open>event\<close> is
  \<open>screening.failed\<close> and whose \<open>data.errors\<close> is the list of \<open>tenant_timeout\<close> alone.
\<close>

theorem concrete_scenario:
  \<open>verifySignature
     (new_WebhookHandler (Some \<lparr>opt_secret = Some ''whsec_test'', opt_tolerance = None\<rparr>))
     1700000000000
     ''{"event":"screening.failed","timestamp":"2024-01-01T00:00:00Z","webhook_id":"wh_1","api_version":"1.0","data":{"purchase_token":"abc","external_customer_id":"c1","external_tenant_id":"t1","status":"failed","reason":"no_response","errors":["tenant_timeout"]}}''
     (HMAC_SHA256_hex ''whsec_test'' (''1700000000.'' @ ''{"event":"screening.failed","timestamp":"2024-01-01T00:00:00Z","webhook_id":"wh_1","api_version":"1.0","data":{"purchase_token":"abc","external_customer_id":"c1","external_tenant_id":"t1","status":"failed","reason":"no_response","errors":["tenant_timeout"]}}''))
     ''1700000000'' = Inr True
   \<and> (case parseWebhook
          (new_WebhookHandler (Some \<lparr>opt_secret = Some ''whsec_test'', opt_tolerance = None\<rparr>))
          1700000000000
          ''{"event":"screening.failed","timestamp":"2024-01-01T00:00:00Z","webhook_id":"wh_1","api_version":"1.0","data":{"purchase_token":"abc","external_customer_id":"c1","external_tenant_id":"t1","status":"failed","reason":"no_response","errors":["tenant_timeout"]}}''
          (HMAC_SHA256_hex ''whsec_test'' (''1700000000.'' @ ''{"event":"screening.failed","timestamp":"2024-01-01T00:00:00Z","webhook_id":"wh_1","api_version":"1.0","data":{"purchase_token":"abc","external_customer_id":"c1","external_tenant_id":"t1","status":"failed","reason":"no_response","errors":["tenant_timeout"]}}''))
          ''1700000000'' of
        Inl e \<Rightarrow> False
      | Inr webhook \<Rightarrow>
          property webhook ''event'' = Some (JString ''screening.failed'') \<and>
          Option.bind (property webhook ''data'') (\<lambda>d. property d ''errors'')
            = Some (JArray [JString ''tenant_timeout'']) \<and>
          map_option event (as_WebhookPayload webhook) = Some ''screening.failed'')\<close>
proof -
  let ?h = "new_WebhookHandler (Some \<lparr>opt_secret = Some ''whsec_test'', opt_tolerance = None\<rparr>)"
  have h: "secret ?h = Some ''whsec_test''" "tolerance ?h = 300"
    by (simp_all add: new_WebhookHandler_def)
  have v: "verifySignature ?h 1700000000000 p
             (HMAC_SHA256_hex ''whsec_test'' (''1700000000.'' @ p)) ''1700000000'' = Inr True" for p
    using h
    by (simp add: verifySignature_fresh [where webhookTime = 1700000000 and key = "''whsec_test''"]
        parseInt_1700000000 timingSafeEqual_same)
  show ?thesis
    unfolding v parseWebhook_configured [of ?h "''whsec_test''", OF h(1), simplified] JSON_parse_scenario
    by (simp add: property_def string_property_def as_WebhookPayload_def)
qed

theorem concrete_scenario_witness:
  \<open>verifySignature
     (new_WebhookHandler (Some \<lparr>opt_secret = Some ''whsec_test'', opt_tolerance = None\<rparr>))
     1700000000000
     ''{"event":"screening.failed","timestamp":"2024-01-01T00:00:00Z","webhook_id":"wh_1","api_version":"1.0","data":{"purchase_token":"abc","external_customer_id":"c1","external_tenant_id":"t1","status":"failed","reason":"no_response","errors":["tenant_timeout"]}}''
     (HMAC_SHA256_hex ''whsec_test'' (''1700000000.'' @ ''{"event":"screening.failed","timestamp":"2024-01-01T00:00:00Z","webhook_id":"wh_1","api_version":"1.0","data":{"purchase_token":"abc","external_customer_id":"c1","external_tenant_id":"t1","status":"failed","reason":"no_response","errors":["tenant_timeout"]}}''))
     ''1700000000'' = Inr True\<close>
  using concrete_scenario by (rule conjunct1)

end
